theory Spec2Isabelle
  imports Main "HOL-Library.Sublist"
begin

section \<open>The task store of task_manager.py\<close>

text \<open>
  A Python \<open>str\<close> is a sequence of Unicode code points. It is modelled as a
  \<^typ>\<open>string\<close> that holds the bytes of its UTF-8 encoding (a lone surrogate in its
  three-byte form), so every \<open>str\<close> has exactly one model. The one exception is
  \<open>PATH_INFO\<close>: WSGI hands it over as code points below 256, and there one
  \<^typ>\<open>char\<close> is one code point. A timestamp is the text that
  \<open>datetime.now(UTC).isoformat()\<close> returned; the clock is not part of the program, so
  every operation that reads it takes the reading as an argument.
\<close>

record Task =
  title :: string
  description :: string
  completed :: bool
  created_at :: string
  completed_at :: "string option"

text \<open>\<open>Task.complete\<close>: the guard makes the transition happen once.\<close>

definition complete :: "string \<Rightarrow> Task \<Rightarrow> Task" where
  "complete now t =
     (if \<not> completed t then t\<lparr>completed := True, completed_at := Some now\<rparr> else t)"

subsection \<open>JSON values and the persisted file\<close>

text \<open>
  \<open>open\<close>, \<open>json.load\<close> and \<open>json.dump\<close> belong to the standard library. The file
  is modelled by what reading it with \<open>json.load\<close> comes to: either the reading ends in
  an exception (\<open>Rejected\<close>, with that exception) or it returns a value. The exceptions
  are \<open>JSONDecodeError\<close> for text that is not JSON, \<open>UnicodeDecodeError\<close> for bytes that
  are not UTF-8, \<open>ValueError\<close> for an integer literal of more than 4300 digits,
  \<open>RecursionError\<close> for nesting that is too deep, and \<open>OSError\<close> for a path that
  exists and cannot be opened. A JSON object is the list of the items of the dict that
  \<open>json.load\<close> builds, in dict order. All JSON numbers that \<open>json.load\<close> returns behave
  alike in this program (they are neither iterable nor mappings), so \<open>JNum\<close> carries an
  integer only.
\<close>

datatype json =
    JNull
  | JBool bool
  | JNum int
  | JStr string
  | JArr "json list"
  | JObj "(string \<times> json) list"

datatype error =
    ValueError string
  | JSONDecodeError
  | UnicodeDecodeError
  | RecursionError
  | OSError
  | TypeError
  | OverflowError

datatype file_content = Rejected error | Json json

text \<open>\<open>JSONDecodeError\<close> and \<open>UnicodeDecodeError\<close> are subclasses of \<open>ValueError\<close>:
  \<open>except ValueError\<close> catches them too, and none of the others.\<close>

fun is_ValueError :: "error \<Rightarrow> bool" where
  "is_ValueError (ValueError _) = True"
| "is_ValueError JSONDecodeError = True"
| "is_ValueError UnicodeDecodeError = True"
| "is_ValueError RecursionError = False"
| "is_ValueError OSError = False"
| "is_ValueError TypeError = False"
| "is_ValueError OverflowError = False"

text \<open>
  What a call can do. \<open>IllTyped\<close>: Python goes on with a \<open>Task\<close> one of whose fields
  holds a value outside its annotation (a dataclass does not check them); the typed
  record cannot follow such an object, and the model says so instead of inventing a
  result.
\<close>

datatype 'a outcome = Returns 'a | Raises error | IllTyped

record TaskManager =
  tasks :: "Task list"
  storage :: "file_content option"

text \<open>
  \<open>storage\<close> is the file at \<open>storage_path\<close>: \<open>None\<close> when it does not exist.
  \<open>task.__dict__\<close> lists the five fields in declaration order.
\<close>

definition task_dict :: "Task \<Rightarrow> json" where
  "task_dict t = JObj
     [(''title'', JStr (title t)),
      (''description'', JStr (description t)),
      (''completed'', JBool (completed t)),
      (''created_at'', JStr (created_at t)),
      (''completed_at'', (case completed_at t of None \<Rightarrow> JNull | Some s \<Rightarrow> JStr s))]"

definition save :: "TaskManager \<Rightarrow> TaskManager" where
  "save m = m\<lparr>storage := Some (Json (JArr (map task_dict (tasks m))))\<rparr>"

text \<open>The code points of a \<open>str\<close>, each in its encoding: a byte from \<open>0x80\<close> to
  \<open>0xBF\<close> continues the code point that the bytes before it began.\<close>

definition is_continuation :: "char \<Rightarrow> bool" where
  "is_continuation c = (128 \<le> (of_char c :: nat) \<and> (of_char c :: nat) < 192)"

fun code_points :: "string \<Rightarrow> string list" where
  "code_points [] = []"
| "code_points (c # cs) =
     (case code_points cs of
        (d # g) # gs \<Rightarrow> if is_continuation d then (c # d # g) # gs else [c] # (d # g) # gs
      | _ \<Rightarrow> [[c]])"

text \<open>\<open>for task in raw_tasks\<close>: a list yields its elements, a dict its keys, a string its
  characters; \<open>None\<close>, a bool or a number is not iterable (\<open>TypeError\<close>).\<close>

fun py_iter :: "json \<Rightarrow> json list option" where
  "py_iter (JArr xs) = Some xs"
| "py_iter (JObj kvs) = Some (map (\<lambda>kv. JStr (fst kv)) kvs)"
| "py_iter (JStr s) = Some (map JStr (code_points s))"
| "py_iter JNull = None"
| "py_iter (JBool b) = None"
| "py_iter (JNum n) = None"

definition field_names :: "string list" where
  "field_names = [''title'', ''description'', ''completed'', ''created_at'', ''completed_at'']"

fun as_str :: "json \<Rightarrow> string option" where
  "as_str (JStr s) = Some s"
| "as_str _ = None"

fun as_bool :: "json \<Rightarrow> bool option" where
  "as_bool (JBool b) = Some b"
| "as_bool _ = None"

fun as_opt_str :: "json \<Rightarrow> string option option" where
  "as_opt_str JNull = Some None"
| "as_opt_str (JStr s) = Some (Some s)"
| "as_opt_str _ = None"

text \<open>
  \<open>Task(**task)\<close> with \<open>now\<close> the clock reading of the \<open>created_at\<close> default factory.
  Anything but a dict after \<open>**\<close>, a key that is no field, and a missing \<open>title\<close> are
  \<open>TypeError\<close>s. The other fields have defaults.
\<close>

definition task_of_json :: "string \<Rightarrow> json \<Rightarrow> Task outcome" where
  "task_of_json now j =
     (case j of
        JObj kvs \<Rightarrow>
          if \<not> list_all (\<lambda>kv. fst kv \<in> set field_names) kvs then Raises TypeError
          else
            (case map_of kvs ''title'' of
               None \<Rightarrow> Raises TypeError
             | Some tv \<Rightarrow>
                (case (as_str tv,
                       case map_of kvs ''description'' of None \<Rightarrow> Some [] | Some v \<Rightarrow> as_str v,
                       case map_of kvs ''completed'' of None \<Rightarrow> Some False | Some v \<Rightarrow> as_bool v,
                       case map_of kvs ''created_at'' of None \<Rightarrow> Some now | Some v \<Rightarrow> as_str v,
                       case map_of kvs ''completed_at'' of None \<Rightarrow> Some None | Some v \<Rightarrow> as_opt_str v)
                 of
                   (Some t, Some d, Some c, Some cr, Some ca) \<Rightarrow>
                     Returns \<lparr>title = t, description = d, completed = c,
                              created_at = cr, completed_at = ca\<rparr>
                 | _ \<Rightarrow> IllTyped))
      | _ \<Rightarrow> Raises TypeError)"

text \<open>
  The list comprehension of \<open>load\<close>: elements are built from left to right and the first
  exception ends it, also after an ill-typed task has been built. \<open>clock i\<close> is the
  clock reading while element \<open>i\<close> is built.
\<close>

fun build_tasks :: "(nat \<Rightarrow> string) \<Rightarrow> nat \<Rightarrow> json list \<Rightarrow> Task list outcome" where
  "build_tasks clock i [] = Returns []"
| "build_tasks clock i (x # xs) =
     (case task_of_json (clock i) x of
        Raises e \<Rightarrow> Raises e
      | IllTyped \<Rightarrow>
          (case build_tasks clock (Suc i) xs of Raises e \<Rightarrow> Raises e | _ \<Rightarrow> IllTyped)
      | Returns t \<Rightarrow>
          (case build_tasks clock (Suc i) xs of
             Returns ts \<Rightarrow> Returns (t # ts)
           | Raises e \<Rightarrow> Raises e
           | IllTyped \<Rightarrow> IllTyped))"

definition load :: "(nat \<Rightarrow> string) \<Rightarrow> TaskManager \<Rightarrow> TaskManager outcome" where
  "load clock m =
     (case storage m of
        None \<Rightarrow> Returns (m\<lparr>tasks := []\<rparr>)
      | Some (Rejected e) \<Rightarrow> Raises e
      | Some (Json raw_tasks) \<Rightarrow>
          (case py_iter raw_tasks of
             None \<Rightarrow> Raises TypeError
           | Some xs \<Rightarrow>
              (case build_tasks clock 0 xs of
                 Returns ts \<Rightarrow> Returns (m\<lparr>tasks := ts\<rparr>)
               | Raises e \<Rightarrow> Raises e
               | IllTyped \<Rightarrow> IllTyped)))"





text \<open>\<open>TaskManager(storage_path)\<close>: an empty list, then \<open>load\<close>.\<close>

definition new_manager :: "(nat \<Rightarrow> string) \<Rightarrow> file_content option \<Rightarrow> TaskManager outcome" where
  "new_manager clock disk = load clock \<lparr>tasks = [], storage = disk\<rparr>"

subsection \<open>The operations\<close>

text \<open>
  A method takes the manager and returns its result with the manager it leaves behind;
  a raised exception is the left summand, and the manager is returned with it, since
  the object outlives the exception.
\<close>

definition add_task :: "string \<Rightarrow> string \<Rightarrow> string \<Rightarrow> TaskManager \<Rightarrow> Task \<times> TaskManager" where
  "add_task now ttl descr m =
     (let task = \<lparr>title = ttl, description = descr, completed = False,
                  created_at = now, completed_at = None\<rparr>
      in (task, save (m\<lparr>tasks := tasks m @ [task]\<rparr>)))"

definition list_tasks :: "bool \<Rightarrow> TaskManager \<Rightarrow> Task list \<times> TaskManager" where
  "list_tasks show_completed m =
     (if show_completed then (tasks m, m)
      else (filter (\<lambda>task. \<not> completed task) (tasks m), m))"

text \<open>
  The position that an index denotes in a Python list: a negative index counts from the
  end, and an index outside \<open>-n .. n - 1\<close> denotes none (\<open>None\<close> here).
\<close>

definition list_position :: "'a list \<Rightarrow> int \<Rightarrow> nat option" where
  "list_position xs index =
     (let n = int (length xs);
          i = (if index < 0 then index + n else index)
      in if i < 0 \<or> n \<le> i then None else Some (nat i))"

text \<open>\<open>self.tasks[index]\<close> raises \<open>IndexError\<close> for every index that denotes no position,
  however large, and \<open>complete_task\<close> turns it into the \<open>ValueError\<close>.\<close>

definition complete_task :: "string \<Rightarrow> int \<Rightarrow> TaskManager \<Rightarrow> (error + Task) \<times> TaskManager" where
  "complete_task now index m =
     (case list_position (tasks m) index of
        None \<Rightarrow> (Inl (ValueError ''Invalid task index''), m)
      | Some p \<Rightarrow>
          (let task = complete now (tasks m ! p)
           in (Inr task, save (m\<lparr>tasks := (tasks m)[p := task]\<rparr>))))"

text \<open>
  \<open>list.pop(index)\<close> first converts the index to a C \<open>ssize_t\<close> and raises
  \<open>OverflowError\<close> when it does not fit, before it looks at the list; that is no
  \<open>IndexError\<close>, so the \<open>except\<close> clause of \<open>delete_task\<close> lets it pass. The range is
  that of CPython on a 64-bit platform. A Python list has at most \<open>ssize_t_max\<close>
  elements, so an index that denotes a position always fits; the model therefore asks
  for the range only when the index denotes none.
\<close>

definition ssize_t_max :: int where
  "ssize_t_max = 9223372036854775807"

definition fits_ssize_t :: "int \<Rightarrow> bool" where
  "fits_ssize_t i = (- ssize_t_max - 1 \<le> i \<and> i \<le> ssize_t_max)"

definition delete_task :: "int \<Rightarrow> TaskManager \<Rightarrow> (error + Task) \<times> TaskManager" where
  "delete_task index m =
     (case list_position (tasks m) index of
        None \<Rightarrow>
          if fits_ssize_t index then (Inl (ValueError ''Invalid task index''), m)
          else (Inl OverflowError, m)
      | Some p \<Rightarrow>
          (Inr (tasks m ! p),
           save (m\<lparr>tasks := take p (tasks m) @ drop (Suc p) (tasks m)\<rparr>)))"

definition clear_completed :: "TaskManager \<Rightarrow> TaskManager" where
  "clear_completed m = save (m\<lparr>tasks := filter (\<lambda>task. \<not> completed task) (tasks m)\<rparr>)"

text \<open>The data-model invariant of a task, and of a manager's list.\<close>

definition task_inv :: "Task \<Rightarrow> bool" where
  "task_inv t = ((completed_at t \<noteq> None) = completed t)"

definition store_inv :: "TaskManager \<Rightarrow> bool" where
  "store_inv m = list_all task_inv (tasks m)"

section \<open>The HTTP front end of web_app.py\<close>

subsection \<open>Library functions the handlers call\<close>

text \<open>
  \<open>str.strip\<close>, \<open>str.split\<close>, \<open>str.endswith\<close>, \<open>int\<close> and \<open>urlencode\<close> are Python's.
  \<open>str.strip()\<close> removes the code points of which \<open>str.isspace\<close> holds from both
  ends. There are 29 of them: U+0009 to U+000D, U+001C to U+0020, U+0085, U+00A0,
  U+1680, U+2000 to U+200A, U+2028, U+2029, U+202F, U+205F and U+3000. The list holds
  their encodings.
\<close>

definition py_whitespace :: "string list" where
  "py_whitespace =
     [[CHR 0x09], [CHR 0x0A], [CHR 0x0B], [CHR 0x0C], [CHR 0x0D],
      [CHR 0x1C], [CHR 0x1D], [CHR 0x1E], [CHR 0x1F], [CHR 0x20],
      [CHR 0xC2, CHR 0x85], [CHR 0xC2, CHR 0xA0],
      [CHR 0xE1, CHR 0x9A, CHR 0x80],
      [CHR 0xE2, CHR 0x80, CHR 0x80], [CHR 0xE2, CHR 0x80, CHR 0x81],
      [CHR 0xE2, CHR 0x80, CHR 0x82], [CHR 0xE2, CHR 0x80, CHR 0x83],
      [CHR 0xE2, CHR 0x80, CHR 0x84], [CHR 0xE2, CHR 0x80, CHR 0x85],
      [CHR 0xE2, CHR 0x80, CHR 0x86], [CHR 0xE2, CHR 0x80, CHR 0x87],
      [CHR 0xE2, CHR 0x80, CHR 0x88], [CHR 0xE2, CHR 0x80, CHR 0x89],
      [CHR 0xE2, CHR 0x80, CHR 0x8A],
      [CHR 0xE2, CHR 0x80, CHR 0xA8], [CHR 0xE2, CHR 0x80, CHR 0xA9],
      [CHR 0xE2, CHR 0x80, CHR 0xAF],
      [CHR 0xE2, CHR 0x81, CHR 0x9F],
      [CHR 0xE3, CHR 0x80, CHR 0x80]]"

text \<open>The length of the first of the given byte sequences that the string begins with,
  and 0 when it begins with none of them.\<close>

definition leading :: "string list \<Rightarrow> string \<Rightarrow> nat" where
  "leading ws s =
     (case filter (\<lambda>w. w \<noteq> [] \<and> take (length w) s = w) ws of
        [] \<Rightarrow> 0
      | w # _ \<Rightarrow> length w)"

function lstrip :: "string list \<Rightarrow> string \<Rightarrow> string" where
  "lstrip ws s = (if leading ws s = 0 then s else lstrip ws (drop (leading ws s) s))"
  by pat_completeness auto
termination
proof (relation "measure (\<lambda>(ws, s). length s)")
  show "wf (measure (\<lambda>(ws, s). length s))" by simp
next
  fix ws :: "string list" and s :: string
  assume pos: "leading ws s \<noteq> 0"
  have "s \<noteq> []"
  proof
    assume "s = []"
    then have "filter (\<lambda>w. w \<noteq> [] \<and> take (length w) s = w) ws = []"
      by (auto simp: filter_empty_conv)
    then have "leading ws s = 0" by (simp add: leading_def)
    with pos show False by simp
  qed
  with pos show "((ws, drop (leading ws s) s), (ws, s)) \<in> measure (\<lambda>(ws, s). length s)"
    by simp
qed

declare lstrip.simps [simp del]

text \<open>The last code point of a string is white space exactly when its encoding ends
  the string, so the right end is stripped on the reversed bytes.\<close>

definition py_strip :: "string \<Rightarrow> string" where
  "py_strip s = rev (lstrip (map rev py_whitespace) (rev (lstrip py_whitespace s)))"

definition endswith :: "string \<Rightarrow> string \<Rightarrow> bool" where
  "endswith s ending = (take (length ending) (rev s) = rev ending)"

text \<open>\<open>s.split(sep, maxsplit)\<close> for a separator of one character.\<close>

fun py_split :: "char \<Rightarrow> nat \<Rightarrow> string \<Rightarrow> string list" where
  "py_split sep 0 s = [s]"
| "py_split sep (Suc n) s =
     (case dropWhile (\<lambda>c. c \<noteq> sep) s of
        [] \<Rightarrow> [s]
      | _ # rest \<Rightarrow> takeWhile (\<lambda>c. c \<noteq> sep) s # py_split sep n rest)"

text \<open>
  \<open>int(s)\<close>, for a string of code points below 256 as \<open>PATH_INFO\<close> is: white space
  around the literal is dropped (for \<open>int\<close> that is the code points 9 to 13, 32, 133
  and 160), one sign may lead, and the digits may be grouped by single underscores. More than \<open>int_max_str_digits\<close> digits are refused (CPython's
  default limit). \<open>None\<close> is the \<open>ValueError\<close>.
\<close>

definition int_isspace :: "char \<Rightarrow> bool" where
  "int_isspace c =
     (c \<in> set [CHR 0x09, CHR 0x0A, CHR 0x0B, CHR 0x0C, CHR 0x0D, CHR 0x20, CHR 0x85, CHR 0xA0])"

definition is_digit :: "char \<Rightarrow> bool" where
  "is_digit c = (c \<in> set ''0123456789'')"

definition digit_value :: "char \<Rightarrow> int" where
  "digit_value c = int (of_char c) - 48"

definition int_max_str_digits :: nat where
  "int_max_str_digits = 4300"

fun int_body :: "bool \<Rightarrow> string \<Rightarrow> bool" where
  "int_body after_digit [] = after_digit"
| "int_body after_digit (c # cs) =
     (if is_digit c then int_body True cs
      else if c = CHR ''_'' \<and> after_digit then int_body False cs
      else False)"

definition py_int :: "string \<Rightarrow> int option" where
  "py_int s =
     (let t = rev (dropWhile int_isspace (rev (dropWhile int_isspace s)));
          negative = (case t of [] \<Rightarrow> False | c # _ \<Rightarrow> c = CHR ''-'');
          literal = (case t of [] \<Rightarrow> []
                     | c # cs \<Rightarrow> if c = CHR ''-'' \<or> c = CHR ''+'' then cs else t);
          digits = filter is_digit literal
      in if int_body False literal \<and> length digits \<le> int_max_str_digits
         then (let v = foldl (\<lambda>a c. 10 * a + digit_value c) 0 digits
               in Some (if negative then - v else v))
         else None)"

text \<open>\<open>urlencode\<close> of a dict of strings, through \<open>quote_plus\<close>: letters, digits and
  \<open>_.-~\<close> stay, a space becomes \<open>+\<close>, and every other byte of the UTF-8 encoding is
  written as \<open>%XX\<close>.\<close>

definition always_safe :: "char \<Rightarrow> bool" where
  "always_safe c =
     (c \<in> set ''ABCDEFGHIJKLMNOPQRSTUVWXYZabcdefghijklmnopqrstuvwxyz0123456789_.-~'')"

definition percent :: "nat \<Rightarrow> string" where
  "percent b = [CHR ''%'', ''0123456789ABCDEF'' ! (b div 16), ''0123456789ABCDEF'' ! (b mod 16)]"

definition quote_plus :: "string \<Rightarrow> string" where
  "quote_plus s =
     concat (map (\<lambda>c. if always_safe c then [c]
                       else if c = CHR '' '' then ''+''
                       else percent (of_char c)) s)"

fun join_amp :: "string list \<Rightarrow> string" where
  "join_amp [] = []"
| "join_amp [x] = x"
| "join_amp (x # y # ys) = x @ ''&'' @ join_amp (y # ys)"

definition urlencode :: "(string \<times> string) list \<Rightarrow> string" where
  "urlencode params = join_amp (map (\<lambda>kv. quote_plus (fst kv) @ ''='' @ quote_plus (snd kv)) params)"

subsection \<open>Responses and handlers\<close>

text \<open>What \<open>start_response\<close> receives, and the body the handler returns.\<close>

record response =
  status :: string
  headers :: "(string \<times> string) list"
  body :: string

definition redirect :: "string \<Rightarrow> string \<Rightarrow> response" where
  "redirect message error =
     (let params = filter (\<lambda>kv. snd kv \<noteq> []) [(''message'', message), (''error'', error)];
          location = ''/'' @ (if params \<noteq> [] then ''?'' @ urlencode params else [])
      in \<lparr>status = ''303 See Other'', headers = [(''Location'', location)], body = []\<rparr>)"

definition not_found :: response where
  "not_found = \<lparr>status = ''404 Not Found'',
                 headers = [(''Content-Type'', ''text/plain; charset=utf-8'')],
                 body = ''Not found''\<rparr>"

text \<open>\<open>_extract_index\<close>: the unpacking needs exactly four parts, and both its
  \<open>ValueError\<close> and that of \<open>int\<close> are raised again with the message below.\<close>

definition extract_index :: "string \<Rightarrow> string \<Rightarrow> error + int" where
  "extract_index path action =
     (let parts = py_split CHR ''/'' 3 path
      in if length parts = 4
         then (case py_int (parts ! 2) of
                 Some index \<Rightarrow> Inr index
               | None \<Rightarrow> Inl (ValueError (''Invalid '' @ action @ '' path: '' @ path)))
         else Inl (ValueError (''Invalid '' @ action @ '' path: '' @ path)))"

text \<open>
  A handler takes the file at the storage path and returns the response with the file
  it leaves. \<open>clock\<close> serves the \<open>load\<close> of the manager the handler builds and \<open>now\<close>
  the operation. \<open>post\<close> is what the call \<open>_read_post_data(environ)\<close> comes to: that
  function reads the stream the server provides and decodes and parses the bytes with
  the standard library, so it either returns the dict of the form fields or ends in an
  exception (\<open>UnicodeDecodeError\<close> for a body that is not UTF-8), which then leaves the
  handler.
\<close>

definition dict_get :: "(string \<rightharpoonup> string) \<Rightarrow> string \<Rightarrow> string \<Rightarrow> string" where
  "dict_get d k dflt = (case d k of None \<Rightarrow> dflt | Some v \<Rightarrow> v)"

definition handle_add ::
  "(nat \<Rightarrow> string) \<Rightarrow> string \<Rightarrow> error + (string \<rightharpoonup> string) \<Rightarrow> file_content option
     \<Rightarrow> (response \<times> file_content option) outcome" where
  "handle_add clock now post disk =
     (case post of
        Inl e \<Rightarrow> Raises e
      | Inr data \<Rightarrow>
         (let ttl = py_strip (dict_get data ''title'' []);
              descr = py_strip (dict_get data ''description'' [])
          in if ttl = [] then Returns (redirect [] ''Task title is required.'', disk)
             else
               (case new_manager clock disk of
                  Raises e \<Rightarrow> Raises e
                | IllTyped \<Rightarrow> IllTyped
                | Returns manager \<Rightarrow>
                    Returns (redirect ''Task added successfully.'' [],
                             storage (snd (add_task now ttl descr manager))))))"

definition handle_complete ::
  "(nat \<Rightarrow> string) \<Rightarrow> string \<Rightarrow> string \<Rightarrow> file_content option
     \<Rightarrow> (response \<times> file_content option) outcome" where
  "handle_complete clock now path disk =
     (case extract_index path ''complete'' of
        Inl e \<Rightarrow> Raises e
      | Inr index \<Rightarrow>
          (case new_manager clock disk of
             Raises e \<Rightarrow> Raises e
           | IllTyped \<Rightarrow> IllTyped
           | Returns manager \<Rightarrow>
               (case complete_task now index manager of
                  (Inl e, m) \<Rightarrow>
                    if is_ValueError e
                    then Returns (redirect [] ''Unable to complete the selected task.'', storage m)
                    else Raises e
                | (Inr task, m) \<Rightarrow>
                    Returns (redirect ''Task marked as complete.'' [], storage m))))"

definition handle_delete ::
  "(nat \<Rightarrow> string) \<Rightarrow> string \<Rightarrow> file_content option
     \<Rightarrow> (response \<times> file_content option) outcome" where
  "handle_delete clock path disk =
     (case extract_index path ''delete'' of
        Inl e \<Rightarrow> Raises e
      | Inr index \<Rightarrow>
          (case new_manager clock disk of
             Raises e \<Rightarrow> Raises e
           | IllTyped \<Rightarrow> IllTyped
           | Returns manager \<Rightarrow>
               (case delete_task index manager of
                  (Inl e, m) \<Rightarrow>
                    if is_ValueError e
                    then Returns (redirect [] ''Unable to delete the selected task.'', storage m)
                    else Raises e
                | (Inr task, m) \<Rightarrow> Returns (redirect ''Task deleted.'' [], storage m))))"

definition handle_clear ::
  "(nat \<Rightarrow> string) \<Rightarrow> file_content option \<Rightarrow> (response \<times> file_content option) outcome" where
  "handle_clear clock disk =
     (case new_manager clock disk of
        Raises e \<Rightarrow> Raises e
      | IllTyped \<Rightarrow> IllTyped
      | Returns manager \<Rightarrow>
          Returns (redirect ''Completed tasks cleared.'' [], storage (clear_completed manager)))"

text \<open>
  \<open>__call__\<close> for a request whose method, in upper case, is \<open>POST\<close>: the two \<open>GET\<close>
  tests fail, and the four \<open>POST\<close> tests are tried in the order of the source.
  \<open>Raises\<close> is an exception that leaves \<open>__call__\<close>: no response has been started.
\<close>

definition call_post ::
  "(nat \<Rightarrow> string) \<Rightarrow> string \<Rightarrow> string \<Rightarrow> error + (string \<rightharpoonup> string)
     \<Rightarrow> file_content option \<Rightarrow> (response \<times> file_content option) outcome" where
  "call_post clock now path_info post disk =
     (let path = (if path_info = [] then ''/'' else path_info)
      in if path = ''/tasks'' then handle_add clock now post disk
         else if endswith path ''/complete'' then handle_complete clock now path disk
         else if endswith path ''/delete'' then handle_delete clock path disk
         else if path = ''/tasks/clear-completed'' then handle_clear clock disk
         else Returns (not_found, disk))"

section \<open>Sample data\<close>

text \<open>A clock that stands still, and three tasks in the states the tests build: one
  completed, two open.\<close>

definition frozen_clock :: "string \<Rightarrow> nat \<Rightarrow> string" where
  "frozen_clock reading i = reading"

definition done_task :: Task where
  "done_task = \<lparr>title = ''Completed task'', description = [], completed = True,
                 created_at = ''2026-01-01T09:00:00+00:00'',
                 completed_at = Some ''2026-01-02T09:00:00+00:00''\<rparr>"

definition open_task :: Task where
  "open_task = \<lparr>title = ''Incomplete task'', description = ''Details'', completed = False,
                 created_at = ''2026-01-01T10:00:00+00:00'', completed_at = None\<rparr>"

definition other_task :: Task where
  "other_task = \<lparr>title = ''Only task'', description = [], completed = False,
                  created_at = ''2026-01-01T11:00:00+00:00'', completed_at = None\<rparr>"


section \<open>Auxiliary facts\<close>

lemma list_position_None_iff:
  "list_position xs index = None \<longleftrightarrow> index < - int (length xs) \<or> int (length xs) \<le> index"
  by (auto simp: list_position_def Let_def)

lemma list_position_in_bounds:
  assumes "- int (length xs) \<le> index" and "index < int (length xs)"
  shows "list_position xs index =
           Some (nat (if index < 0 then index + int (length xs) else index))"
  using assms by (auto simp: list_position_def Let_def)

lemma list_position_less:
  "list_position xs index = Some p \<Longrightarrow> p < length xs"
  by (auto simp: list_position_def Let_def split: if_splits)

lemma list_position_from_end:
  assumes "1 \<le> k" and "k \<le> length xs"
  shows "list_position xs (- int k) = Some (length xs - k)"
proof -
  have "nat (- int k + int (length xs)) = length xs - k"
    using assms by linarith
  then show ?thesis
    using assms by (auto simp: list_position_def Let_def)
qed

lemma complete_completed [simp]: "completed (complete now t)"
  by (simp add: complete_def)

lemma complete_idem: "complete now' (complete now t) = complete now t"
  by (simp add: complete_def)

lemma task_inv_complete: "task_inv t \<Longrightarrow> task_inv (complete now t)"
  by (simp add: task_inv_def complete_def)

lemma tasks_save [simp]: "tasks (save m) = tasks m"
  by (simp add: save_def)

lemma storage_save [simp]: "storage (save m) = Some (Json (JArr (map task_dict (tasks m))))"
  by (simp add: save_def)

lemma save_tasks_unchanged: "save ((save m)\<lparr>tasks := tasks (save m)\<rparr>) = save m"
  by (simp add: save_def)

lemma store_inv_save [simp]: "store_inv (save m) = store_inv m"
  by (simp add: store_inv_def)

lemma list_all_update:
  "list_all P xs \<Longrightarrow> P x \<Longrightarrow> list_all P (xs[p := x])"
  by (induction xs arbitrary: p) (auto split: nat.splits)

lemma complete_task_at:
  assumes "list_position (tasks m) index = Some p"
  shows "complete_task now index m =
           (Inr (complete now (tasks m ! p)),
            save (m\<lparr>tasks := (tasks m)[p := complete now (tasks m ! p)]\<rparr>))"
  using assms by (simp add: complete_task_def Let_def)

lemma delete_task_at:
  assumes "list_position (tasks m) index = Some p"
  shows "delete_task index m =
           (Inr (tasks m ! p), save (m\<lparr>tasks := take p (tasks m) @ drop (Suc p) (tasks m)\<rparr>))"
  using assms by (simp add: delete_task_def)

lemma nth_without:
  assumes "p < length xs"
  shows "length (take p xs @ drop (Suc p) xs) = length xs - 1"
    and "j < p \<Longrightarrow> (take p xs @ drop (Suc p) xs) ! j = xs ! j"
    and "p \<le> j \<Longrightarrow> j < length xs - 1 \<Longrightarrow> (take p xs @ drop (Suc p) xs) ! j = xs ! Suc j"
  using assms by (auto simp: nth_append min_def)

lemma task_of_json_task_dict: "task_of_json now (task_dict t) = Returns t"
  by (cases "completed_at t") (simp_all add: task_of_json_def task_dict_def field_names_def)















lemma leading_all:
  "list_all (\<lambda>w. leading py_whitespace (w @ r) = length w) py_whitespace"
  by (simp add: py_whitespace_def leading_def)

lemma leading_whitespace:
  "w \<in> set py_whitespace \<Longrightarrow> leading py_whitespace (w @ r) = length w"
  using leading_all [of r] by (simp add: list_all_iff)

lemma whitespace_nonempty: "w \<in> set py_whitespace \<Longrightarrow> w \<noteq> []"
  by (auto simp: py_whitespace_def)

lemma lstrip_Nil: "lstrip ws [] = []"
proof -
  have "filter (\<lambda>w. w \<noteq> [] \<and> take (length w) [] = w) ws = []"
    by (auto simp: filter_empty_conv)
  then have "leading ws [] = 0"
    by (simp only: leading_def list.case)
  then show ?thesis by (simp add: lstrip.simps [of ws "[]"])
qed

lemma lstrip_blank:
  "set ws \<subseteq> set py_whitespace \<Longrightarrow> lstrip py_whitespace (concat ws) = []"
proof (induction ws)
  case Nil
  show ?case by (simp add: lstrip_Nil)
next
  case (Cons w ws)
  then have w: "w \<in> set py_whitespace" and rest: "set ws \<subseteq> set py_whitespace" by auto
  have len: "leading py_whitespace (w @ concat ws) = length w"
    using w by (rule leading_whitespace)
  have "w \<noteq> []" using w by (rule whitespace_nonempty)
  then have "lstrip py_whitespace (w @ concat ws) = lstrip py_whitespace (concat ws)"
    using len by (simp add: lstrip.simps [of py_whitespace "w @ concat ws"])
  with Cons.IH rest show ?case by simp
qed

lemma py_strip_blank:
  assumes "set ws \<subseteq> set py_whitespace"
  shows "py_strip (concat ws) = []"
  using lstrip_blank [OF assms] by (simp add: py_strip_def lstrip_Nil)

lemma redirect_error:
  "redirect [] ''Task title is required.''
     = \<lparr>status = ''303 See Other'',
        headers = [(''Location'', ''/?error=Task+title+is+required.'')], body = []\<rparr>"
  by (simp add: redirect_def urlencode_def quote_plus_def always_safe_def)

lemma endswith_nonempty: "endswith s (c # cs) \<Longrightarrow> s \<noteq> []"
  by (auto simp: endswith_def)

lemma endswith_length: "endswith s ending \<Longrightarrow> length ending \<le> length s"
proof -
  assume "endswith s ending"
  then have "length (take (length ending) (rev s)) = length (rev ending)"
    by (simp add: endswith_def)
  then show ?thesis by simp
qed

section \<open>The store\<close>

subsection \<open>An index outside the list\<close>

text \<open>
  An index is out of bounds for a Python list of length \<open>n\<close> when it is at least \<open>n\<close> or
  below \<open>-n\<close>. For every manager and every such index \<open>complete_task\<close> raises
  \<open>ValueError("Invalid task index")\<close>, and so does \<open>delete_task\<close> as long as the index
  fits a \<open>ssize_t\<close>; for an index that does not, \<open>delete_task\<close> ends in the
  \<open>OverflowError\<close> of \<open>list.pop\<close>. In each case the manager is left as it was: the same
  task list and the same file, since \<open>save\<close> is not reached.
\<close>

lemma out_of_bounds_index:
  assumes "index < - int (length (tasks m)) \<or> int (length (tasks m)) \<le> index"
  shows "complete_task now index m = (Inl (ValueError ''Invalid task index''), m)
       \<and> delete_task index m
           = (Inl (if fits_ssize_t index then ValueError ''Invalid task index''
                   else OverflowError), m)"
proof -
  from assms have "list_position (tasks m) index = None"
    by (simp add: list_position_None_iff)
  then show ?thesis
    by (simp add: complete_task_def delete_task_def)
qed

text \<open>
  Claim C1 fails on the code at the index \<open>2^63\<close>, which is out of bounds for every list:
  on a manager with one task \<open>delete_task(9223372036854775808)\<close> ends in
  \<open>OverflowError\<close>, not in \<open>ValueError("Invalid task index")\<close>, while \<open>complete_task\<close> of
  the same index raises the \<open>ValueError\<close>. The \<open>except ValueError\<close> of the HTTP handler
  does not catch the \<open>OverflowError\<close> either, so
  \<open>POST /tasks/9223372036854775808/delete\<close> gets no response.
\<close>

theorem delete_task_overflow:
  "delete_task 9223372036854775808 \<lparr>tasks = [other_task], storage = None\<rparr>
     = (Inl OverflowError, \<lparr>tasks = [other_task], storage = None\<rparr>)
   \<and> complete_task ''2026-01-03T09:00:00+00:00'' 9223372036854775808
        \<lparr>tasks = [other_task], storage = None\<rparr>
     = (Inl (ValueError ''Invalid task index''), \<lparr>tasks = [other_task], storage = None\<rparr>)
   \<and> call_post (frozen_clock ''2026-01-03T09:00:00+00:00'') ''2026-01-03T09:00:01+00:00''
        ''/tasks/9223372036854775808/delete'' (Inr Map.empty)
        (Some (Json (JArr [task_dict other_task])))
     = Raises OverflowError"
proof -
  have d: "delete_task 9223372036854775808 \<lparr>tasks = [other_task], storage = None\<rparr>
     = (Inl OverflowError, \<lparr>tasks = [other_task], storage = None\<rparr>)"
    by (simp add: delete_task_def list_position_def fits_ssize_t_def ssize_t_max_def)
  have c: "complete_task ''2026-01-03T09:00:00+00:00'' 9223372036854775808
        \<lparr>tasks = [other_task], storage = None\<rparr>
     = (Inl (ValueError ''Invalid task index''), \<lparr>tasks = [other_task], storage = None\<rparr>)"
    by (simp add: complete_task_def list_position_def)
  have i: "extract_index ''/tasks/9223372036854775808/delete'' ''delete''
             = Inr 9223372036854775808"
    by (simp add: extract_index_def numeral_3_eq_3 py_int_def int_isspace_def is_digit_def
        digit_value_def int_max_str_digits_def)
  have l: "new_manager (frozen_clock ''2026-01-03T09:00:00+00:00'')
             (Some (Json (JArr [task_dict other_task])))
           = Returns \<lparr>tasks = [other_task], storage = Some (Json (JArr [task_dict other_task]))\<rparr>"
    by (simp add: new_manager_def load_def task_of_json_task_dict)
  have h: "call_post (frozen_clock ''2026-01-03T09:00:00+00:00'') ''2026-01-03T09:00:01+00:00''
        ''/tasks/9223372036854775808/delete'' (Inr Map.empty)
        (Some (Json (JArr [task_dict other_task])))
     = Raises OverflowError"
    by (simp add: call_post_def endswith_def handle_delete_def i l delete_task_def
        list_position_def fits_ssize_t_def ssize_t_max_def)
  from d c h show ?thesis by simp
qed

subsection \<open>The invariant of the data model\<close>

text \<open>
  Claim C2. \<open>completed_at\<close> is present exactly when \<open>completed\<close> is true: if that holds
  of every task of the manager, it holds again after \<open>add_task\<close>, \<open>complete_task\<close>
  (whether it succeeds or raises), \<open>delete_task\<close> (likewise), \<open>clear_completed\<close> and
  \<open>list_tasks\<close>.
\<close>

theorem invariant_preserved:
  assumes "store_inv m"
  shows "store_inv (snd (add_task now ttl descr m))
       \<and> store_inv (snd (complete_task now index m))
       \<and> store_inv (snd (delete_task index m))
       \<and> store_inv (clear_completed m)
       \<and> store_inv (snd (list_tasks show_completed m))"
proof -
  have all: "list_all task_inv (tasks m)"
    using assms by (simp add: store_inv_def)
  have add: "store_inv (snd (add_task now ttl descr m))"
    using all by (simp add: add_task_def Let_def store_inv_def task_inv_def)
  have compl: "store_inv (snd (complete_task now index m))"
  proof (cases "list_position (tasks m) index")
    case None
    then show ?thesis using assms by (simp add: complete_task_def)
  next
    case (Some p)
    then have "p < length (tasks m)" by (rule list_position_less)
    with all have "task_inv (tasks m ! p)" by (simp add: list_all_length)
    then have "task_inv (complete now (tasks m ! p))" by (rule task_inv_complete)
    with all have "list_all task_inv ((tasks m)[p := complete now (tasks m ! p)])"
      by (rule list_all_update)
    with Some show ?thesis by (simp add: complete_task_def Let_def store_inv_def)
  qed
  have del: "store_inv (snd (delete_task index m))"
  proof (cases "list_position (tasks m) index")
    case None
    then show ?thesis using assms by (simp add: delete_task_def)
  next
    case (Some p)
    have "set (take p (tasks m) @ drop (Suc p) (tasks m)) \<subseteq> set (tasks m)"
      using set_take_subset set_drop_subset by fastforce
    with all have "list_all task_inv (take p (tasks m) @ drop (Suc p) (tasks m))"
      unfolding list_all_iff by blast
    with Some show ?thesis by (simp add: delete_task_def store_inv_def)
  qed
  have clr: "store_inv (clear_completed m)"
    using all by (simp add: clear_completed_def store_inv_def list_all_iff)
  have lst: "store_inv (snd (list_tasks show_completed m))"
    using assms by (simp add: list_tasks_def)
  from add compl del clr lst show ?thesis by simp
qed

text \<open>A manager with a completed and an open task, whose open task is then completed.\<close>

theorem invariant_preserved_witness:
  "store_inv \<lparr>tasks = [done_task, open_task], storage = None\<rparr>
   \<and> store_inv (snd (complete_task ''2026-01-03T09:00:00+00:00'' 1
        \<lparr>tasks = [done_task, open_task], storage = None\<rparr>))
   \<and> store_inv (snd (add_task ''2026-01-03T09:00:00+00:00'' ''New'' []
        \<lparr>tasks = [done_task, open_task], storage = None\<rparr>))"
proof -
  have h: "store_inv \<lparr>tasks = [done_task, open_task], storage = None\<rparr>"
    by (simp add: store_inv_def task_inv_def done_task_def open_task_def)
  show ?thesis
    using h invariant_preserved [OF h, where now = "''2026-01-03T09:00:00+00:00''"
        and index = 1 and ttl = "''New''" and descr = "[]"]
    by simp
qed

subsection \<open>Completing a task\<close>

text \<open>
  Claim C3. For every manager whose tasks satisfy the invariant of the data model and
  every index within \<open>-n .. n - 1\<close>, with \<open>p\<close> the position the index denotes and \<open>t\<close>
  the task there: \<open>complete_task\<close> returns the task that is then at \<open>p\<close>; that task is
  \<open>t\<close> with \<open>completed\<close> true and, unless \<open>t\<close> was completed already, \<open>completed_at\<close> set
  to the clock reading; its \<open>completed_at\<close> is non-null; the rest of the list is as
  before and the file is written. A second \<open>complete_task\<close> of the same index, at any
  later clock reading, returns the same task and changes nothing, so \<open>completed_at\<close>
  stays what the first call made it.
\<close>

theorem complete_task_in_bounds:
  assumes "store_inv m"
    and "- int (length (tasks m)) \<le> index" and "index < int (length (tasks m))"
    and "p = nat (if index < 0 then index + int (length (tasks m)) else index)"
    and "t = tasks m ! p"
    and "r = complete_task now index m"
  shows "fst r = Inr (tasks (snd r) ! p)
       \<and> tasks (snd r)
           = (tasks m)[p := (if completed t then t
                             else t\<lparr>completed := True, completed_at := Some now\<rparr>)]
       \<and> completed (tasks (snd r) ! p)
       \<and> completed_at (tasks (snd r) ! p) \<noteq> None
       \<and> completed_at (tasks (snd r) ! p) = (if completed t then completed_at t else Some now)
       \<and> storage (snd r) = Some (Json (JArr (map task_dict (tasks (snd r)))))
       \<and> complete_task now' index (snd r) = (Inr (tasks (snd r) ! p), snd r)
       \<and> completed_at (tasks (snd (complete_task now' index (snd r))) ! p)
           = completed_at (tasks (snd r) ! p)"
proof -
  have pos: "list_position (tasks m) index = Some p"
    using assms(2-4) by (simp add: list_position_in_bounds)
  then have p: "p < length (tasks m)" by (rule list_position_less)
  have "list_all task_inv (tasks m)"
    using assms(1) by (simp add: store_inv_def)
  with p assms(5) have ti: "task_inv t" by (simp add: list_all_length)
  let ?t' = "complete now t"
  let ?m' = "save (m\<lparr>tasks := (tasks m)[p := ?t']\<rparr>)"
  have r: "r = (Inr ?t', ?m')"
    using pos assms(5,6) by (simp add: complete_task_at)
  have nth: "tasks ?m' ! p = ?t'" using p by simp
  have pos': "list_position (tasks ?m') index = Some p"
    using pos by (simp add: list_position_def)
  have same: "(tasks ?m')[p := complete now' (tasks ?m' ! p)] = tasks ?m'"
    using p by (simp add: complete_idem)
  have again: "complete_task now' index ?m' = (Inr ?t', ?m')"
    unfolding complete_task_at [OF pos'] same
    using p by (simp add: complete_idem save_tasks_unchanged)
  have explicit: "?t' = (if completed t then t else t\<lparr>completed := True, completed_at := Some now\<rparr>)"
    by (simp add: complete_def)
  have nonnull: "completed_at ?t' \<noteq> None"
    using ti by (simp add: task_inv_def complete_def)
  have at: "completed_at ?t' = (if completed t then completed_at t else Some now)"
    by (simp add: complete_def)
  have c1: "fst r = Inr (tasks (snd r) ! p)" using r nth by simp
  have c2: "tasks (snd r) = (tasks m)[p := (if completed t then t
                             else t\<lparr>completed := True, completed_at := Some now\<rparr>)]"
    using r explicit by simp
  have c3: "completed (tasks (snd r) ! p)" using r nth by simp
  have c4: "completed_at (tasks (snd r) ! p) \<noteq> None" using r nth nonnull by simp
  have c5: "completed_at (tasks (snd r) ! p) = (if completed t then completed_at t else Some now)"
    using r nth at by simp
  have c6: "storage (snd r) = Some (Json (JArr (map task_dict (tasks (snd r)))))"
    using r by simp
  have c7: "complete_task now' index (snd r) = (Inr (tasks (snd r) ! p), snd r)"
    using r nth again by simp
  have c8: "completed_at (tasks (snd (complete_task now' index (snd r))) ! p)
           = completed_at (tasks (snd r) ! p)"
    using c7 by simp
  from c1 c2 c3 c4 c5 c6 c7 c8 show ?thesis by blast
qed

text \<open>The open sample task is completed, and completed once more a day later.\<close>

theorem complete_task_in_bounds_witness:
  "store_inv \<lparr>tasks = [done_task, open_task], storage = None\<rparr>
   \<and> fst (complete_task ''2026-01-03T09:00:00+00:00'' 1
            \<lparr>tasks = [done_task, open_task], storage = None\<rparr>)
       = Inr \<lparr>title = ''Incomplete task'', description = ''Details'', completed = True,
              created_at = ''2026-01-01T10:00:00+00:00'',
              completed_at = Some ''2026-01-03T09:00:00+00:00''\<rparr>
   \<and> fst (complete_task ''2026-01-04T09:00:00+00:00'' 1
        (snd (complete_task ''2026-01-03T09:00:00+00:00'' 1
               \<lparr>tasks = [done_task, open_task], storage = None\<rparr>)))
       = Inr \<lparr>title = ''Incomplete task'', description = ''Details'', completed = True,
              created_at = ''2026-01-01T10:00:00+00:00'',
              completed_at = Some ''2026-01-03T09:00:00+00:00''\<rparr>
   \<and> snd (complete_task ''2026-01-04T09:00:00+00:00'' 1
        (snd (complete_task ''2026-01-03T09:00:00+00:00'' 1
               \<lparr>tasks = [done_task, open_task], storage = None\<rparr>)))
       = snd (complete_task ''2026-01-03T09:00:00+00:00'' 1
               \<lparr>tasks = [done_task, open_task], storage = None\<rparr>)"
proof -
  have h: "store_inv \<lparr>tasks = [done_task, open_task], storage = None\<rparr>"
    by (simp add: store_inv_def task_inv_def done_task_def open_task_def)
  show ?thesis
    using h complete_task_in_bounds [OF h _ _ _ refl refl, where index = 1 and p = 1
        and now = "''2026-01-03T09:00:00+00:00''" and now' = "''2026-01-04T09:00:00+00:00''"]
    by (simp add: open_task_def)
qed

subsection \<open>Deleting a task\<close>

text \<open>
  Claim C4. For every manager and every index within \<open>-n .. n - 1\<close>, with \<open>p\<close> the
  position the index denotes (the index itself when it is not negative): \<open>delete_task\<close>
  returns the task at \<open>p\<close>, the new list is the old one without position \<open>p\<close>, it is
  shorter by exactly one, every task before \<open>p\<close> keeps its position, every task after
  \<open>p\<close> moves down by one, and the file is rewritten.
\<close>

theorem delete_task_in_bounds:
  assumes "- int (length (tasks m)) \<le> index" and "index < int (length (tasks m))"
    and "p = nat (if index < 0 then index + int (length (tasks m)) else index)"
    and "r = delete_task index m"
  shows "fst r = Inr (tasks m ! p)
       \<and> tasks (snd r) = take p (tasks m) @ drop (Suc p) (tasks m)
       \<and> Suc (length (tasks (snd r))) = length (tasks m)
       \<and> (\<forall>j < p. tasks (snd r) ! j = tasks m ! j)
       \<and> (\<forall>j. p \<le> j \<and> j < length (tasks (snd r)) \<longrightarrow> tasks (snd r) ! j = tasks m ! Suc j)
       \<and> storage (snd r) = Some (Json (JArr (map task_dict (tasks (snd r)))))"
proof -
  have pos: "list_position (tasks m) index = Some p"
    using assms(1-3) by (simp add: list_position_in_bounds)
  then have p: "p < length (tasks m)" by (rule list_position_less)
  have r: "r = (Inr (tasks m ! p), save (m\<lparr>tasks := take p (tasks m) @ drop (Suc p) (tasks m)\<rparr>))"
    using pos assms(4) by (simp add: delete_task_at)
  have len: "Suc (length (take p (tasks m) @ drop (Suc p) (tasks m))) = length (tasks m)"
    using p nth_without(1) [OF p] by simp
  have before: "\<forall>j < p. (take p (tasks m) @ drop (Suc p) (tasks m)) ! j = tasks m ! j"
    using nth_without(2) [OF p] by blast
  have after: "\<forall>j. p \<le> j \<and> j < length (take p (tasks m) @ drop (Suc p) (tasks m))
                 \<longrightarrow> (take p (tasks m) @ drop (Suc p) (tasks m)) ! j = tasks m ! Suc j"
    using nth_without(3) [OF p] nth_without(1) [OF p] by metis
  show ?thesis
    unfolding r using len before after by simp
qed

text \<open>Deleting the middle one of three tasks.\<close>

theorem delete_task_in_bounds_witness:
  "- int (length (tasks \<lparr>tasks = [done_task, open_task, other_task], storage = None\<rparr>)) \<le> 1
   \<and> 1 < int (length (tasks \<lparr>tasks = [done_task, open_task, other_task], storage = None\<rparr>))
   \<and> fst (delete_task 1 \<lparr>tasks = [done_task, open_task, other_task], storage = None\<rparr>)
       = Inr open_task
   \<and> tasks (snd (delete_task 1 \<lparr>tasks = [done_task, open_task, other_task], storage = None\<rparr>))
       = [done_task, other_task]"
  using delete_task_in_bounds [where index = 1 and p = 1
      and m = "\<lparr>tasks = [done_task, open_task, other_task], storage = None\<rparr>", OF _ _ _ refl]
  by simp

subsection \<open>Clearing completed tasks\<close>

text \<open>
  Claim C5. For every manager, \<open>clear_completed\<close> leaves exactly the tasks that are not
  completed, in their order, and writes the file. On a manager built where no file
  exists, \<open>add("A")\<close>, \<open>add("B")\<close>, \<open>complete(0)\<close>, \<open>clear_completed()\<close> and then
  \<open>list_tasks()\<close> give one task: \<open>B\<close>, not completed.
\<close>

theorem clear_completed_keeps_open_tasks:
  "tasks (clear_completed m) = filter (\<lambda>task. \<not> completed task) (tasks m)
   \<and> set (tasks (clear_completed m)) = {task \<in> set (tasks m). \<not> completed task}
   \<and> subseq (tasks (clear_completed m)) (tasks m)
   \<and> storage (clear_completed m) = Some (Json (JArr (map task_dict (tasks (clear_completed m)))))
   \<and> new_manager clock None = Returns \<lparr>tasks = [], storage = None\<rparr>
   \<and> fst (list_tasks True
        (clear_completed
          (snd (complete_task now_c 0
            (snd (add_task now_b ''B'' []
              (snd (add_task now_a ''A'' [] \<lparr>tasks = [], storage = None\<rparr>))))))))
      = [\<lparr>title = ''B'', description = [], completed = False,
          created_at = now_b, completed_at = None\<rparr>]"
  by (auto simp: clear_completed_def new_manager_def load_def add_task_def Let_def
      complete_task_def list_position_def complete_def list_tasks_def)

text \<open>The two halves on sample data: a list of three, and the example with its clock readings.\<close>

theorem clear_completed_keeps_open_tasks_witness:
  "tasks (clear_completed \<lparr>tasks = [done_task, open_task, other_task], storage = None\<rparr>)
     = [open_task, other_task]
   \<and> fst (list_tasks True
        (clear_completed
          (snd (complete_task ''2026-01-01T12:00:00+00:00'' 0
            (snd (add_task ''2026-01-01T11:00:00+00:00'' ''B'' []
              (snd (add_task ''2026-01-01T10:00:00+00:00'' ''A'' []
                     \<lparr>tasks = [], storage = None\<rparr>))))))))
      = [\<lparr>title = ''B'', description = [], completed = False,
          created_at = ''2026-01-01T11:00:00+00:00'', completed_at = None\<rparr>]"
  using clear_completed_keeps_open_tasks [where
      m = "\<lparr>tasks = [done_task, open_task, other_task], storage = None\<rparr>"
      and now_a = "''2026-01-01T10:00:00+00:00''" and now_b = "''2026-01-01T11:00:00+00:00''"
      and now_c = "''2026-01-01T12:00:00+00:00''"]
  by (simp add: done_task_def open_task_def other_task_def)

subsection \<open>Adding and listing\<close>

text \<open>
  Claim C6. For every manager, title and description (an empty title included, since
  nothing is checked), \<open>add_task\<close> returns a new task that is not completed and has no
  \<open>completed_at\<close>, appends it to the list and writes the file. \<open>list_tasks\<close> returns the
  whole list, or the tasks that are not completed, in the order of the list, and the
  manager as it was. So listing after adding ends with the new task, and on a manager
  that was empty it gives the new task alone.
\<close>

theorem add_then_list:
  "fst (add_task now ttl descr m)
     = \<lparr>title = ttl, description = descr, completed = False,
        created_at = now, completed_at = None\<rparr>
   \<and> tasks (snd (add_task now ttl descr m)) = tasks m @ [fst (add_task now ttl descr m)]
   \<and> storage (snd (add_task now ttl descr m))
       = Some (Json (JArr (map task_dict (tasks m @ [fst (add_task now ttl descr m)]))))
   \<and> list_tasks True m = (tasks m, m)
   \<and> list_tasks False m = (filter (\<lambda>task. \<not> completed task) (tasks m), m)
   \<and> subseq (fst (list_tasks show_completed m)) (tasks m)
   \<and> fst (list_tasks True (snd (add_task now ttl descr m)))
       = tasks m @ [fst (add_task now ttl descr m)]
   \<and> fst (list_tasks False (snd (add_task now ttl descr m)))
       = filter (\<lambda>task. \<not> completed task) (tasks m) @ [fst (add_task now ttl descr m)]
   \<and> (tasks m = [] \<longrightarrow>
        fst (list_tasks show_completed (snd (add_task now ttl descr m)))
          = [\<lparr>title = ttl, description = descr, completed = False,
              created_at = now, completed_at = None\<rparr>])"
  by (simp add: add_task_def Let_def list_tasks_def)

text \<open>The first test of the store: one task is added to an empty manager and listed.\<close>

theorem add_then_list_witness:
  "tasks \<lparr>tasks = [], storage = None\<rparr> = []
   \<and> fst (list_tasks True (snd (add_task ''2026-01-01T10:00:00+00:00'' ''Test task'' ''Details''
             \<lparr>tasks = [], storage = None\<rparr>)))
     = [\<lparr>title = ''Test task'', description = ''Details'', completed = False,
         created_at = ''2026-01-01T10:00:00+00:00'', completed_at = None\<rparr>]"
  using add_then_list [where m = "\<lparr>tasks = [], storage = None\<rparr>"
      and now = "''2026-01-01T10:00:00+00:00''"
      and ttl = "''Test task''" and descr = "''Details''" and show_completed = True]
  by simp

subsection \<open>Negative indices\<close>

text \<open>
  Claim C9. For every manager with \<open>n\<close> tasks and every \<open>k\<close> from 1 to \<open>n\<close>, with \<open>t\<close> the
  task at position \<open>n - k\<close>: \<open>complete_task(-k)\<close> does not raise; it returns \<open>t\<close> with
  \<open>completed\<close> true and, unless \<open>t\<close> was completed already, \<open>completed_at\<close> set to the
  clock reading, puts that task at position \<open>n - k\<close> and writes the file.
  \<open>delete_task(-k)\<close> does not raise; it returns \<open>t\<close>, removes position \<open>n - k\<close> and writes
  the file. With \<open>k = 1\<close> the task is the last one.
\<close>

theorem negative_index_counts_from_end:
  assumes "1 \<le> k" and "k \<le> length (tasks m)"
    and "p = length (tasks m) - k"
    and "t = tasks m ! p"
  shows "fst (complete_task now (- int k) m)
           = Inr (if completed t then t else t\<lparr>completed := True, completed_at := Some now\<rparr>)
       \<and> completed (tasks (snd (complete_task now (- int k) m)) ! p)
       \<and> completed_at (tasks (snd (complete_task now (- int k) m)) ! p)
           = (if completed t then completed_at t else Some now)
       \<and> tasks (snd (complete_task now (- int k) m))
           = (tasks m)[p := (if completed t then t
                             else t\<lparr>completed := True, completed_at := Some now\<rparr>)]
       \<and> storage (snd (complete_task now (- int k) m))
           = Some (Json (JArr (map task_dict (tasks (snd (complete_task now (- int k) m))))))
       \<and> complete_task now (- int k) m
           = (Inr (complete now (tasks m ! p)),
              save (m\<lparr>tasks := (tasks m)[p := complete now (tasks m ! p)]\<rparr>))
       \<and> delete_task (- int k) m
           = (Inr (tasks m ! p),
              save (m\<lparr>tasks := take p (tasks m) @ drop (Suc p) (tasks m)\<rparr>))
       \<and> tasks (snd (delete_task (- int k) m)) = take p (tasks m) @ drop (Suc p) (tasks m)
       \<and> storage (snd (delete_task (- int k) m))
           = Some (Json (JArr (map task_dict (take p (tasks m) @ drop (Suc p) (tasks m)))))
       \<and> p < length (tasks m)
       \<and> (k = 1 \<longrightarrow> tasks m ! p = last (tasks m))"
proof -
  have pos: "list_position (tasks m) (- int k) = Some p"
    using assms(1-3) by (simp add: list_position_from_end)
  have p: "p < length (tasks m)" using assms(1-3) by linarith
  have lst: "k = 1 \<longrightarrow> tasks m ! p = last (tasks m)"
  proof
    assume "k = 1"
    moreover from assms(1,2) have "tasks m \<noteq> []" by auto
    ultimately show "tasks m ! p = last (tasks m)"
      using assms(3) by (simp add: last_conv_nth)
  qed
  have explicit: "complete now t
                    = (if completed t then t else t\<lparr>completed := True, completed_at := Some now\<rparr>)"
    by (simp add: complete_def)
  have c: "complete_task now (- int k) m
           = (Inr (complete now t), save (m\<lparr>tasks := (tasks m)[p := complete now t]\<rparr>))"
    using assms(4) by (simp add: complete_task_at [OF pos])
  have d: "delete_task (- int k) m
           = (Inr (tasks m ! p),
              save (m\<lparr>tasks := take p (tasks m) @ drop (Suc p) (tasks m)\<rparr>))"
    by (simp add: delete_task_at [OF pos])
  have c1: "fst (complete_task now (- int k) m)
           = Inr (if completed t then t else t\<lparr>completed := True, completed_at := Some now\<rparr>)"
    using c explicit by simp
  have c2: "completed (tasks (snd (complete_task now (- int k) m)) ! p)"
    using c p by simp
  have c3: "completed_at (tasks (snd (complete_task now (- int k) m)) ! p)
           = (if completed t then completed_at t else Some now)"
    using c p by (simp add: complete_def)
  have c4: "tasks (snd (complete_task now (- int k) m))
           = (tasks m)[p := (if completed t then t
                             else t\<lparr>completed := True, completed_at := Some now\<rparr>)]"
    using c explicit by simp
  have c5: "storage (snd (complete_task now (- int k) m))
           = Some (Json (JArr (map task_dict (tasks (snd (complete_task now (- int k) m))))))"
    using c by simp
  have c6: "complete_task now (- int k) m
           = (Inr (complete now (tasks m ! p)),
              save (m\<lparr>tasks := (tasks m)[p := complete now (tasks m ! p)]\<rparr>))"
    using c assms(4) by simp
  have d1: "tasks (snd (delete_task (- int k) m)) = take p (tasks m) @ drop (Suc p) (tasks m)"
    using d by simp
  have d2: "storage (snd (delete_task (- int k) m))
           = Some (Json (JArr (map task_dict (take p (tasks m) @ drop (Suc p) (tasks m)))))"
    using d by simp
  from c1 c2 c3 c4 c5 c6 d d1 d2 p lst show ?thesis by blast
qed

text \<open>Index \<open>-1\<close> on a list of two: the open task at the end is completed, or deleted.\<close>

theorem negative_index_counts_from_end_witness:
  "(1::nat) \<le> 1 \<and> 1 \<le> length (tasks \<lparr>tasks = [done_task, open_task], storage = None\<rparr>)
   \<and> fst (complete_task ''2026-01-03T09:00:00+00:00'' (- 1)
           \<lparr>tasks = [done_task, open_task], storage = None\<rparr>)
       = Inr \<lparr>title = ''Incomplete task'', description = ''Details'', completed = True,
              created_at = ''2026-01-01T10:00:00+00:00'',
              completed_at = Some ''2026-01-03T09:00:00+00:00''\<rparr>
   \<and> tasks (snd (complete_task ''2026-01-03T09:00:00+00:00'' (- 1)
           \<lparr>tasks = [done_task, open_task], storage = None\<rparr>))
       = [done_task,
          \<lparr>title = ''Incomplete task'', description = ''Details'', completed = True,
            created_at = ''2026-01-01T10:00:00+00:00'',
            completed_at = Some ''2026-01-03T09:00:00+00:00''\<rparr>]
   \<and> fst (delete_task (- 1) \<lparr>tasks = [done_task, open_task], storage = None\<rparr>) = Inr open_task
   \<and> tasks (snd (delete_task (- 1) \<lparr>tasks = [done_task, open_task], storage = None\<rparr>))
       = [done_task]"
  using negative_index_counts_from_end [where k = 1 and p = 1 and t = open_task
      and now = "''2026-01-03T09:00:00+00:00''"
      and m = "\<lparr>tasks = [done_task, open_task], storage = None\<rparr>"]
  by (simp add: open_task_def complete_def)

subsection \<open>Loading\<close>




section \<open>The HTTP front end\<close>

subsection \<open>A blank title\<close>

text \<open>
  Claim C8. For every \<open>POST\<close> to \<open>/tasks\<close> whose form was read and whose \<open>title\<close> field is
  missing, empty or made of white space only (any sequence of the 29 code points that
  \<open>str.strip\<close> removes), the response is \<open>303 See Other\<close> with the one header
  \<open>Location: /?error=Task+title+is+required.\<close>, and the file is what it was: no manager
  is built, so nothing is loaded or saved.
\<close>

theorem blank_title_rejected:
  assumes "post = Inr data"
    and "set ws \<subseteq> set py_whitespace"
    and "dict_get data ''title'' [] = concat ws"
  shows "call_post clock now ''/tasks'' post disk
           = Returns (\<lparr>status = ''303 See Other'',
                       headers = [(''Location'', ''/?error=Task+title+is+required.'')],
                       body = []\<rparr>, disk)"
proof -
  from assms(2,3) have "py_strip (dict_get data ''title'' []) = []"
    by (simp add: py_strip_blank)
  then have "handle_add clock now post disk
               = Returns (redirect [] ''Task title is required.'', disk)"
    using assms(1) by (simp add: handle_add_def Let_def)
  then show ?thesis
    by (simp add: call_post_def redirect_error)
qed

text \<open>A title of a space, U+3000, U+00A0 and a space, with no file yet; and a form
  without a title, with a file of one task.\<close>

theorem blank_title_rejected_witness:
  "call_post (frozen_clock ''2026-01-05T00:00:00+00:00'') ''2026-01-05T00:00:01+00:00''
        ''/tasks''
        (Inr [''title'' \<mapsto> [CHR 0x20, CHR 0xE3, CHR 0x80, CHR 0x80, CHR 0xC2, CHR 0xA0, CHR 0x20]])
        None
       = Returns (\<lparr>status = ''303 See Other'',
                   headers = [(''Location'', ''/?error=Task+title+is+required.'')],
                   body = []\<rparr>, None)
   \<and> call_post (frozen_clock ''2026-01-05T00:00:00+00:00'') ''2026-01-05T00:00:01+00:00''
        ''/tasks'' (Inr Map.empty) (Some (Json (JArr [task_dict open_task])))
       = Returns (\<lparr>status = ''303 See Other'',
                   headers = [(''Location'', ''/?error=Task+title+is+required.'')],
                   body = []\<rparr>, Some (Json (JArr [task_dict open_task])))"
proof -
  have a: "set [[CHR 0x20], [CHR 0xE3, CHR 0x80, CHR 0x80], [CHR 0xC2, CHR 0xA0], [CHR 0x20]]
             \<subseteq> set py_whitespace"
    by (simp add: py_whitespace_def)
  have b: "dict_get [''title'' \<mapsto> [CHR 0x20, CHR 0xE3, CHR 0x80, CHR 0x80, CHR 0xC2, CHR 0xA0, CHR 0x20]]
             ''title'' []
           = concat [[CHR 0x20], [CHR 0xE3, CHR 0x80, CHR 0x80], [CHR 0xC2, CHR 0xA0], [CHR 0x20]]"
    by (simp add: dict_get_def)
  have c: "set [] \<subseteq> set py_whitespace" by simp
  have d: "dict_get Map.empty ''title'' [] = concat []" by (simp add: dict_get_def)
  show ?thesis
    using blank_title_rejected [OF refl a b, of "frozen_clock ''2026-01-05T00:00:00+00:00''"
        "''2026-01-05T00:00:01+00:00''" None]
      blank_title_rejected [OF refl c d, of "frozen_clock ''2026-01-05T00:00:00+00:00''"
        "''2026-01-05T00:00:01+00:00''" "Some (Json (JArr [task_dict open_task]))"]
    by simp
qed

subsection \<open>An index segment that is no integer\<close>

text \<open>
  Claim C10. For every \<open>POST\<close> whose path ends in \<open>/complete\<close> or \<open>/delete\<close> and whose
  split at the first three slashes has no four parts, or has a third part that \<open>int\<close>
  refuses, \<open>__call__\<close> returns no response: the \<open>ValueError\<close> of \<open>_extract_index\<close>,
  raised before the \<open>try\<close> of the handler, leaves it.
\<close>

theorem bad_index_segment_raises:
  assumes "endswith path ''/complete'' \<or> endswith path ''/delete''"
    and "length (py_split CHR ''/'' 3 path) \<noteq> 4
         \<or> py_int (py_split CHR ''/'' 3 path ! 2) = None"
  shows "call_post clock now path post disk
           = Raises (ValueError (''Invalid ''
                @ (if endswith path ''/complete'' then ''complete'' else ''delete'')
                @ '' path: '' @ path))"
proof -
  have ne: "path \<noteq> []"
    using assms(1) endswith_nonempty by blast
  have "length path \<ge> 7"
    using assms(1) endswith_length [of path "''/complete''"] endswith_length [of path "''/delete''"]
    by auto
  then have nt: "path \<noteq> ''/tasks''" by auto
  have c: "extract_index path ''complete'' = Inl (ValueError (''Invalid complete path: '' @ path))"
    using assms(2) by (auto simp: extract_index_def Let_def)
  have d: "extract_index path ''delete'' = Inl (ValueError (''Invalid delete path: '' @ path))"
    using assms(2) by (auto simp: extract_index_def Let_def)
  show ?thesis
    using ne nt assms(1) c d
    by (auto simp: call_post_def Let_def handle_complete_def handle_delete_def)
qed

text \<open>The path \<open>/tasks/abc/complete\<close>.\<close>

theorem bad_index_segment_raises_witness:
  "endswith ''/tasks/abc/complete'' ''/complete''
   \<and> py_int (py_split CHR ''/'' 3 ''/tasks/abc/complete'' ! 2) = None
   \<and> call_post (frozen_clock ''2026-01-05T00:00:00+00:00'') ''2026-01-05T00:00:01+00:00''
        ''/tasks/abc/complete'' (Inr Map.empty) None
       = Raises (ValueError ''Invalid complete path: /tasks/abc/complete'')"
proof -
  have e: "endswith ''/tasks/abc/complete'' ''/complete''"
    by (simp add: endswith_def)
  have i: "py_int (py_split CHR ''/'' 3 ''/tasks/abc/complete'' ! 2) = None"
    by (simp add: numeral_3_eq_3 py_int_def int_isspace_def is_digit_def)
  show ?thesis
    using e i bad_index_segment_raises [OF disjI1 [OF e] disjI2 [OF i],
        of "frozen_clock ''2026-01-05T00:00:00+00:00''" "''2026-01-05T00:00:01+00:00''"
           "Inr Map.empty" None]
    by simp
qed

end
